theory Spec2Isabelle
  imports Main
begin

section \<open>JavaScript values, errors and completions\<close>

text \<open>
  The values that flow through \<^verbatim>\<open>index.js\<close>: the bound data, the \<^verbatim>\<open>this_arg\<close> of a
  display, the arguments and results of rendering functions. Objects live in a heap and
  are named by their address, so that a caller can mutate the data a view is bound to.
  \<open>FunctionObject\<close> is what a rendering function sees when its \<^verbatim>\<open>this\<close> is itself a
  function (an opaque callable).
\<close>

datatype jsval =
    Undefined
  | Null
  | Bool bool
  | Num int
  | Str string
  | Obj nat
  | FunctionObject

text \<open>
  Whatever can be thrown: the three native errors the code can meet, and a value thrown
  by a rendering function. \<open>ReferenceError\<close> carries its message.
\<close>

datatype jserror =
    ReferenceError string
  | TypeError
  | SyntaxError
  | Thrown jsval

text \<open>
  The completion of a call: it returns, it throws, or it leaves the fragment of the
  language that this theory gives a meaning to (\<open>Unmodelled\<close>: nothing is then said
  about what the program does).
\<close>

datatype 'a completion =
    Normal 'a
  | Throw jserror
  | Unmodelled

fun cbind :: "'a completion \<Rightarrow> ('a \<Rightarrow> 'b completion) \<Rightarrow> 'b completion" where
  "cbind (Normal x) f = f x"
| "cbind (Throw e) f = Throw e"
| "cbind Unmodelled f = Unmodelled"

definition cmap :: "('a \<Rightarrow> 'b) \<Rightarrow> 'a completion \<Rightarrow> 'b completion" where
  "cmap f c = cbind c (\<lambda>x. Normal (f x))"

text \<open>
  The state outside the view: the global variables and the heap of data objects. A
  rendering function reads it; it is passed anew at every call, so a caller's mutation of
  the data between two calls is a change of \<open>world\<close>.
\<close>

record world =
  globals :: "string \<rightharpoonup> jsval"
  heap :: "nat \<rightharpoonup> (string \<rightharpoonup> jsval)"

text \<open>
  A function value handed to the view: its \<^verbatim>\<open>name\<close> property and what
  \<^verbatim>\<open>fn.call(this_arg, ...args)\<close> computes. Rendering functions are taken to read the
  world without changing it.
\<close>

record jsfun =
  fname :: string
  fcode :: "world \<Rightarrow> jsval \<Rightarrow> jsval list \<Rightarrow> jsval completion"

section \<open>The function body built by the constructor\<close>

abbreviation backslash :: char where "backslash \<equiv> CHR 0x5C"
abbreviation backtick :: char where "backtick \<equiv> CHR 0x60"
abbreviation quote :: char where "quote \<equiv> CHR 0x27"
abbreviation CR :: char where "CR \<equiv> CHR 0x0D"
abbreviation LF :: char where "LF \<equiv> CHR 0x0A"

text \<open>
  \<^verbatim>\<open>s.replace(/c/g, r)\<close> for a one-character pattern \<open>c\<close> and a replacement \<open>r\<close> without
  \<^verbatim>\<open>$\<close>: every occurrence of \<open>c\<close> becomes \<open>r\<close>.
\<close>

fun replace_all :: "char \<Rightarrow> string \<Rightarrow> string \<Rightarrow> string" where
  "replace_all c r [] = []"
| "replace_all c r (x # xs) = (if x = c then r else [x]) @ replace_all c r xs"

text \<open>
  Lines 70 to 72: \<^verbatim>\<open>fn.call(data).replace(/\\/g, '\\\\').replace(/`/g, '\\`')\<close>, on
  the value the default display returned. \<^verbatim>\<open>undefined\<close> and \<^verbatim>\<open>null\<close> have no
  properties and booleans and numbers have no \<^verbatim>\<open>replace\<close> method: a \<^verbatim>\<open>TypeError\<close>.
  An object may carry a \<^verbatim>\<open>replace\<close> of its own, which is not modelled.
\<close>

definition escape :: "string \<Rightarrow> string" where
  "escape s = replace_all backtick [backslash, backtick]
                (replace_all backslash [backslash, backslash] s)"

fun returned_of :: "jsval \<Rightarrow> string completion" where
  "returned_of (Str s) = Normal (escape s)"
| "returned_of Undefined = Throw TypeError"
| "returned_of Null = Throw TypeError"
| "returned_of (Bool b) = Throw TypeError"
| "returned_of (Num n) = Throw TypeError"
| "returned_of (Obj a) = Unmodelled"
| "returned_of FunctionObject = Unmodelled"

text \<open>
  The two bodies that the constructor passes to \<^verbatim>\<open>super\<close>, that is to \<^verbatim>\<open>Function\<close>: a
  \<^verbatim>\<open>throw\<close> of a new \<^verbatim>\<open>ReferenceError\<close>, and the \<^verbatim>\<open>return\<close> of a template literal. A
  template literal is a sequence of characters and of substitutions \<^verbatim>\<open>${x}\<close>; of the
  expressions a substitution may hold, the global variable \<open>x\<close> is given a meaning here.
\<close>

datatype tpart = Lit char | Subst string

datatype fbody = ThrowReferenceError string | ReturnTemplate "tpart list"

definition ident_start :: "char \<Rightarrow> bool" where
  "ident_start c = (c \<in> set ''abcdefghijklmnopqrstuvwxyzABCDEFGHIJKLMNOPQRSTUVWXYZ_$'')"

definition ident_part :: "char \<Rightarrow> bool" where
  "ident_part c = (ident_start c \<or> c \<in> set ''0123456789'')"

definition reserved_words :: "string list" where
  "reserved_words =
    [''arguments'', ''async'', ''await'', ''break'', ''case'', ''catch'', ''class'', ''const'',
     ''continue'', ''debugger'', ''default'', ''delete'', ''do'', ''else'', ''enum'', ''eval'',
     ''export'', ''extends'', ''false'', ''finally'', ''for'', ''function'', ''if'',
     ''implements'', ''import'', ''in'', ''instanceof'', ''interface'', ''let'', ''new'',
     ''null'', ''package'', ''private'', ''protected'', ''public'', ''return'', ''static'',
     ''super'', ''switch'', ''this'', ''throw'', ''true'', ''try'', ''typeof'', ''var'',
     ''void'', ''while'', ''with'', ''yield'']"

text \<open>
  The text of a template literal after its opening backtick, read as ECMA-262 reads it
  (Template Literal Lexical Components, static semantics TV):
  \<^item> the closing backtick ends the literal, and the body with it;
  \<^item> a backslash starts an escape sequence: \<^verbatim>\<open>\\\<close> stands for a backslash and
    \<^verbatim>\<open>\`\<close> for a backtick (the two sequences that \<open>escape\<close> writes);
  \<^item> \<^verbatim>\<open>${\<close> opens a substitution;
  \<^item> the line terminators CR and CR LF both stand for LF;
  \<^item> every other character stands for itself.
  A literal that ends before its closing backtick is a \<^verbatim>\<open>SyntaxError\<close>.
\<close>

function template :: "string \<Rightarrow> tpart list completion" where
  "template [] = Throw SyntaxError"
| "template (c # cs) =
    (if c = backtick then (if cs = [] then Normal [] else Unmodelled)
     else if c = backslash then
       (case cs of
          [] \<Rightarrow> Throw SyntaxError
        | e # r \<Rightarrow>
            if e = backslash \<or> e = backtick then cmap (Cons (Lit e)) (template r)
            else Unmodelled)
     else if c = CHR ''$'' \<and> take 1 cs = ''{'' then
       (let x = takeWhile ident_part (tl cs); r = dropWhile ident_part (tl cs)
        in if x \<noteq> [] \<and> ident_start (hd x) \<and> x \<notin> set reserved_words \<and> take 1 r = ''}''
           then cmap (Cons (Subst x)) (template (tl r))
           else Unmodelled)
     else if c = CR then
       cmap (Cons (Lit LF)) (template (if take 1 cs = [LF] then tl cs else cs))
     else cmap (Cons (Lit c)) (template cs))"
  by pat_completeness auto
termination
proof (relation "measure length")
  fix c :: char and cs x r
  assume "r = dropWhile ident_part (tl cs)"
  then have "length r \<le> length cs"
    by (metis diff_le_self le_trans length_dropWhile_le length_tl)
  then show "(tl r, c # cs) \<in> measure length"
    by simp
qed auto

fun strip_prefix :: "string \<Rightarrow> string \<Rightarrow> string option" where
  "strip_prefix [] s = Some s"
| "strip_prefix (p # ps) [] = None"
| "strip_prefix (p # ps) (c # cs) = (if p = c then strip_prefix ps cs else None)"

definition plain_char :: "char \<Rightarrow> bool" where
  "plain_char c = (c \<noteq> quote \<and> c \<noteq> backslash \<and> c \<noteq> CR \<and> c \<noteq> LF)"

text \<open>
  \<^verbatim>\<open>new Function(body)\<close>, on the two statements the constructor writes. The body is
  parsed when the function is made: a malformed body throws there.
\<close>

definition js_Function :: "string \<Rightarrow> fbody completion" where
  "js_Function src =
    (case strip_prefix (''return '' @ [backtick]) src of
       Some t \<Rightarrow> cmap ReturnTemplate (template t)
     | None \<Rightarrow>
        (case strip_prefix (''throw new ReferenceError('' @ [quote]) src of
           None \<Rightarrow> Unmodelled
         | Some r \<Rightarrow>
            (case strip_prefix [CHR '')'', quote] (rev r) of
               None \<Rightarrow> Unmodelled
             | Some m \<Rightarrow>
                 if list_all plain_char m then Normal (ThrowReferenceError (rev m))
                 else Unmodelled)))"

section \<open>The View class\<close>

text \<open>
  A view is a function object: the body \<^verbatim>\<open>super\<close> compiled, the properties assigned to
  it (\<^verbatim>\<open>_DATA\<close> and one property for each display), and its prototype. A property holds
  a plain value or the closure that \<^verbatim>\<open>addDisplay\<close> makes, which captures \<^verbatim>\<open>fn\<close> and
  \<^verbatim>\<open>this_arg\<close>.
\<close>

datatype pval = Val jsval | Display jsfun jsval

datatype proto = ViewPrototype | ProtoDisplay jsfun jsval

record view =
  body :: fbody
  props :: "string \<rightharpoonup> pval"
  proto :: proto

text \<open>
  The constructor, lines 66 to 76. \<open>None\<close> is \<^verbatim>\<open>fn === null\<close>. In the other branch
  \<^verbatim>\<open>fn.call(data)\<close> runs first, with no arguments; its result is escaped and spliced
  between two backticks after \<^verbatim>\<open>return\<close>; the text is compiled by \<^verbatim>\<open>super\<close>. Only then
  is \<^verbatim>\<open>_DATA\<close> assigned.
\<close>

definition View :: "jsfun option \<Rightarrow> jsval \<Rightarrow> world \<Rightarrow> view completion" where
  "View fn data w =
    cbind
      (case fn of
         None \<Rightarrow>
           js_Function (''throw new ReferenceError('' @ [quote] @
             ''This view does not have a default display.'' @ [quote] @ '')'')
       | Some f \<Rightarrow>
           cbind (fcode f w data []) (\<lambda>r.
           cbind (returned_of r) (\<lambda>returned.
           js_Function (''return '' @ [backtick] @ returned @ [backtick]))))
      (\<lambda>b. Normal \<lparr>body = b, props = [''_DATA'' \<mapsto> Val data], proto = ViewPrototype\<rparr>)"

text \<open>
  \<^verbatim>\<open>ToString\<close> of the value of a substitution, on the primitive values whose text does
  not depend on number formatting.
\<close>

fun to_string :: "jsval \<Rightarrow> string completion" where
  "to_string (Str s) = Normal s"
| "to_string Undefined = Normal ''undefined''"
| "to_string Null = Normal ''null''"
| "to_string (Bool b) = Normal (if b then ''true'' else ''false'')"
| "to_string (Num n) = Unmodelled"
| "to_string (Obj a) = Unmodelled"
| "to_string FunctionObject = Unmodelled"

text \<open>
  Evaluating the template literal, left to right, when the view is called. A function made
  by \<^verbatim>\<open>Function\<close> sees the global scope only: \<^verbatim>\<open>${x}\<close> reads the global variable
  \<open>x\<close>, and an unbound \<open>x\<close> is a \<^verbatim>\<open>ReferenceError\<close>.
\<close>

fun eval_template :: "world \<Rightarrow> tpart list \<Rightarrow> string completion" where
  "eval_template w [] = Normal []"
| "eval_template w (Lit c # ps) = cmap (Cons c) (eval_template w ps)"
| "eval_template w (Subst x # ps) =
    (case globals w x of
       None \<Rightarrow> Throw (ReferenceError (x @ '' is not defined''))
     | Some v \<Rightarrow>
         cbind (to_string v) (\<lambda>s. cmap (append s) (eval_template w ps)))"

text \<open>Calling the view itself, \<^verbatim>\<open>view()\<close>: its compiled body runs in the world of the call.\<close>

definition call_view :: "view \<Rightarrow> world \<Rightarrow> jsval completion" where
  "call_view v w =
    (case body v of
       ThrowReferenceError m \<Rightarrow> Throw (ReferenceError m)
     | ReturnTemplate ps \<Rightarrow> cmap Str (eval_template w ps))"

text \<open>
  The property keys of a function object that an assignment in strict code (a class body
  is strict) cannot write: \<^verbatim>\<open>name\<close> and \<^verbatim>\<open>length\<close> are own properties that are not
  writable, and \<^verbatim>\<open>arguments\<close> and \<^verbatim>\<open>caller\<close> are refused by every function. The
  assignment throws a \<^verbatim>\<open>TypeError\<close>.
\<close>

definition readonly_keys :: "string list" where
  "readonly_keys = [''name'', ''length'', ''arguments'', ''caller'']"

text \<open>Reading \<^verbatim>\<open>this._DATA\<close>; a property that holds a closure reads as a function.\<close>

definition get_DATA :: "view \<Rightarrow> jsval" where
  "get_DATA v =
    (case props v ''_DATA'' of
       None \<Rightarrow> Undefined
     | Some (Val d) \<Rightarrow> d
     | Some (Display g a) \<Rightarrow> FunctionObject)"

text \<open>
  \<^verbatim>\<open>addDisplay(fn, this_arg = this._DATA)\<close>, lines 84 to 89. The default of a parameter
  is taken when the argument is missing or is \<^verbatim>\<open>undefined\<close>, and it is computed before
  the body runs. \<^verbatim>\<open>this[fn.name] = ...\<close> then writes the property named by the function:
  the key \<^verbatim>\<open>__proto__\<close> is the accessor of \<^verbatim>\<open>Object.prototype\<close>, whose setter changes
  the prototype of the view; any other writable key becomes, or stays, an own property.
  The method returns \<^verbatim>\<open>this\<close>, here the updated view. This is the method of
  \<^verbatim>\<open>View.prototype\<close> applied to a view; what the call \<^verbatim>\<open>v.addDisplay(...)\<close> runs is
  decided by \<open>call_addDisplay\<close> below.
\<close>

definition addDisplay :: "jsfun \<Rightarrow> jsval \<Rightarrow> view \<Rightarrow> view completion" where
  "addDisplay fn this_arg0 v =
    (let this_arg = (if this_arg0 = Undefined then get_DATA v else this_arg0) in
     if fname fn \<in> set readonly_keys then Throw TypeError
     else if fname fn = ''__proto__'' then Normal (v\<lparr>proto := ProtoDisplay fn this_arg\<rparr>)
     else Normal (v\<lparr>props := (props v)(fname fn \<mapsto> Display fn this_arg)\<rparr>))"

text \<open>
  Calling a display, \<^verbatim>\<open>view.n(...args)\<close>. The closure stored by \<^verbatim>\<open>addDisplay\<close> returns
  \<^verbatim>\<open>fn.call(this_arg, ...args)\<close> as it is. A key that is not an own property is looked
  up along the prototype chain, which is not modelled.
\<close>

definition call_named :: "view \<Rightarrow> string \<Rightarrow> jsval list \<Rightarrow> world \<Rightarrow> jsval completion" where
  "call_named v n args w =
    (if n = ''__proto__'' then
       (case proto v of
          ViewPrototype \<Rightarrow> Throw TypeError
        | ProtoDisplay g a \<Rightarrow> fcode g w a args)
     else if n \<in> set readonly_keys then Throw TypeError
     else
       (case props v n of
          None \<Rightarrow> Unmodelled
        | Some (Val d) \<Rightarrow> (if d = FunctionObject then Unmodelled else Throw TypeError)
        | Some (Display g a) \<Rightarrow> fcode g w a args))"

text \<open>
  What a call \<^verbatim>\<open>v.addDisplay(fn, ...rest)\<close> returns: the view itself, as the method
  does, or the value of whatever else the property \<^verbatim>\<open>addDisplay\<close> of the view holds.
\<close>

datatype ret = This | Value jsval

text \<open>The second argument of the call: \<^verbatim>\<open>undefined\<close> when there is none.\<close>

definition second_arg :: "jsval list \<Rightarrow> jsval" where
  "second_arg rest = (case rest of [] \<Rightarrow> Undefined | a # others \<Rightarrow> a)"

text \<open>
  The context that the method binds a display to, on a view whose \<^verbatim>\<open>_DATA\<close> holds \<open>d\<close>:
  the second argument of the call, and \<open>d\<close> when that is missing or \<^verbatim>\<open>undefined\<close>.
\<close>

definition context_of :: "jsval \<Rightarrow> jsval list \<Rightarrow> jsval" where
  "context_of d rest = (if second_arg rest = Undefined then d else second_arg rest)"

text \<open>
  The call \<^verbatim>\<open>v.addDisplay(fn, ...rest)\<close>. The property \<^verbatim>\<open>addDisplay\<close> is looked up on
  the view first:
  \<^item> an own property of that name is a display, registered earlier from a function named
    \<^verbatim>\<open>addDisplay\<close>: the call runs that display on the arguments of the call, the function
    \<open>fn\<close> the first of them, and returns its result; nothing is registered;
  \<^item> otherwise the property is sought along the prototype chain. \<^verbatim>\<open>View.prototype\<close> holds
    the method. Once a display named \<^verbatim>\<open>__proto__\<close> has replaced the prototype of the view
    by its closure, the chain holds no such property, and calling \<^verbatim>\<open>undefined\<close> is a
    \<^verbatim>\<open>TypeError\<close>.
  The result is what the call returns together with the view after the call.
\<close>

definition call_addDisplay ::
  "view \<Rightarrow> jsfun \<Rightarrow> jsval list \<Rightarrow> world \<Rightarrow> (ret \<times> view) completion" where
  "call_addDisplay v fn rest w =
    (case props v ''addDisplay'' of
       Some (Display g a) \<Rightarrow> cmap (\<lambda>r. (Value r, v)) (fcode g w a (FunctionObject # rest))
     | Some (Val d) \<Rightarrow> (if d = FunctionObject then Unmodelled else Throw TypeError)
     | None \<Rightarrow>
        (case proto v of
           ProtoDisplay g a \<Rightarrow> Throw TypeError
         | ViewPrototype \<Rightarrow> cmap (\<lambda>v'. (This, v')) (addDisplay fn (second_arg rest) v)))"

text \<open>
  A view that holds its data \<open>d\<close> in \<^verbatim>\<open>_DATA\<close> and finds the method \<^verbatim>\<open>addDisplay\<close> on its
  prototype: the state the constructor leaves, and that \<^verbatim>\<open>addDisplay\<close> keeps as long as
  no display is named \<^verbatim>\<open>_DATA\<close>, \<^verbatim>\<open>addDisplay\<close> or \<^verbatim>\<open>__proto__\<close>.
\<close>

definition intact :: "view \<Rightarrow> jsval \<Rightarrow> bool" where
  "intact v d =
    (props v ''_DATA'' = Some (Val d) \<and> props v ''addDisplay'' = None \<and> proto v = ViewPrototype)"

text \<open>The names under which a display meets a member the view already has.\<close>

definition member_keys :: "string list" where
  "member_keys = readonly_keys @ [''addDisplay'', ''__proto__'', ''_DATA'']"

section \<open>Predicates on the string a default display returns\<close>

text \<open>\<open>has_subst s\<close>: the text \<^verbatim>\<open>${\<close> occurs in \<open>s\<close>.\<close>

fun has_subst :: "string \<Rightarrow> bool" where
  "has_subst (c # d # cs) = ((c = CHR ''$'' \<and> d = CHR ''{'') \<or> has_subst (d # cs))"
| "has_subst cs = False"

text \<open>\<open>crlf s\<close>: the string \<open>s\<close> with every CR LF and every other CR replaced by LF.\<close>

fun crlf :: "string \<Rightarrow> string" where
  "crlf (c # d # cs) =
     (if c = CR \<and> d = LF then LF # crlf cs
      else if c = CR then LF # crlf (d # cs)
      else c # crlf (d # cs))"
| "crlf [c] = (if c = CR then [LF] else [c])"
| "crlf [] = []"

section \<open>Sample functions and worlds\<close>

text \<open>A world whose only global variable is \<open>x\<close>.\<close>

definition world_x :: "jsval \<Rightarrow> world" where
  "world_x v = \<lparr>globals = [''x'' \<mapsto> v], heap = Map.empty\<rparr>"

text \<open>\<^verbatim>\<open>function n() { return r }\<close>, for a constant \<open>r\<close>.\<close>

definition constant_fn :: "string \<Rightarrow> jsval \<Rightarrow> jsfun" where
  "constant_fn n r = \<lparr>fname = n, fcode = (\<lambda>w this args. Normal r)\<rparr>"

text \<open>
  \<^verbatim>\<open>function n() { 'use strict'; return this }\<close>: in strict code \<^verbatim>\<open>this\<close> is the
  context as it was passed, also when that is \<^verbatim>\<open>undefined\<close> or a string.
\<close>

definition this_fn :: "string \<Rightarrow> jsfun" where
  "this_fn n = \<lparr>fname = n, fcode = (\<lambda>w this args. Normal this)\<rparr>"

text \<open>\<^verbatim>\<open>function n() { throw e }\<close>.\<close>

definition throwing_fn :: "string \<Rightarrow> jsval \<Rightarrow> jsfun" where
  "throwing_fn n e = \<lparr>fname = n, fcode = (\<lambda>w this args. Throw (Thrown e))\<rparr>"

text \<open>
  \<^verbatim>\<open>function n() { return this.name }\<close>, on a context that is an object of the heap
  (\<^verbatim>\<open>undefined\<close> when the object has no such property).
\<close>

definition name_fn :: "string \<Rightarrow> jsfun" where
  "name_fn n =
    \<lparr>fname = n,
     fcode = (\<lambda>w this args.
       case this of
         Obj a \<Rightarrow>
           (case heap w a of
              None \<Rightarrow> Unmodelled
            | Some obj \<Rightarrow>
                (case obj ''name'' of None \<Rightarrow> Normal Undefined | Some x \<Rightarrow> Normal x))
       | _ \<Rightarrow> Unmodelled)\<rparr>"

text \<open>A world whose heap holds \<^verbatim>\<open>{name: n}\<close> at address 0.\<close>

definition world_named :: "string \<Rightarrow> world" where
  "world_named n = \<lparr>globals = Map.empty, heap = [0 \<mapsto> [''name'' \<mapsto> Str n]]\<rparr>"

text \<open>
  The view that \<^verbatim>\<open>new View(null, d)\<close> makes: the body that throws, and \<^verbatim>\<open>_DATA\<close> as its
  only property.
\<close>

definition static_view :: "jsval \<Rightarrow> view" where
  "static_view d =
    \<lparr>body = ThrowReferenceError ''This view does not have a default display.'',
     props = [''_DATA'' \<mapsto> Val d], proto = ViewPrototype\<rparr>"

section \<open>The template literal gives back the escaped string\<close>

lemma escape_Nil: "escape [] = []"
  by (simp add: escape_def)

lemma escape_Cons:
  "escape (c # s) =
     (if c = backslash then backslash # backslash # escape s
      else if c = backtick then backslash # backtick # escape s
      else c # escape s)"
  by (simp add: escape_def)

lemma cmap_Normal: "cmap f (Normal x) = Normal (f x)"
  by (simp add: cmap_def)

lemma template_end: "template [backtick] = Normal []"
  by simp

lemma template_backslash:
  "e = backslash \<or> e = backtick \<Longrightarrow>
   template (backslash # e # r) = cmap (Cons (Lit e)) (template r)"
  by simp

lemma template_CR_LF: "template (CR # LF # cs) = cmap (Cons (Lit LF)) (template cs)"
  by simp

lemma template_CR:
  "take 1 cs \<noteq> [LF] \<Longrightarrow> template (CR # cs) = cmap (Cons (Lit LF)) (template cs)"
  by simp

lemma template_plain:
  "c \<noteq> backtick \<Longrightarrow> c \<noteq> backslash \<Longrightarrow> c \<noteq> CR \<Longrightarrow>
   c \<noteq> CHR ''$'' \<or> take 1 cs \<noteq> ''{'' \<Longrightarrow>
   template (c # cs) = cmap (Cons (Lit c)) (template cs)"
  by auto

lemma take1_escape:
  "x \<noteq> backslash \<Longrightarrow> x \<noteq> backtick \<Longrightarrow>
   (take 1 (escape s @ [backtick]) = [x]) = (take 1 s = [x])"
  by (cases s) (auto simp: escape_Cons escape_Nil)

lemma has_subst_tail: "\<not> has_subst (c # cs) \<Longrightarrow> \<not> has_subst cs"
  by (cases cs) auto

lemma template_escape_step:
  assumes ns: "\<not> has_subst (c # s)"
      and ncr: "c \<noteq> CR"
      and ih: "template (escape s @ [backtick]) = Normal (map Lit t)"
  shows "template (escape (c # s) @ [backtick]) = Normal (map Lit (c # t))"
proof -
  consider "c = backslash" | "c = backtick" | "c \<noteq> backslash" "c \<noteq> backtick"
    by blast
  then show ?thesis
  proof cases
    case 1
    then show ?thesis
      using ih by (simp add: escape_Cons template_backslash cmap_Normal del: template.simps)
  next
    case 2
    then show ?thesis
      using ih by (simp add: escape_Cons template_backslash cmap_Normal del: template.simps)
  next
    case 3
    have "(take 1 (escape s @ [backtick]) = ''{'') = (take 1 s = ''{'')"
      by (rule take1_escape) simp_all
    moreover have "c \<noteq> CHR ''$'' \<or> take 1 s \<noteq> ''{''"
      using ns by (cases s) auto
    ultimately have "c \<noteq> CHR ''$'' \<or> take 1 (escape s @ [backtick]) \<noteq> ''{''"
      by blast
    then have "template (c # escape s @ [backtick]) = cmap (Cons (Lit c)) (template (escape s @ [backtick]))"
      using 3 ncr by (intro template_plain)
    then show ?thesis
      using 3 ih by (simp add: escape_Cons cmap_Normal del: template.simps)
  qed
qed

lemma template_escape:
  "\<not> has_subst s \<Longrightarrow> template (escape s @ [backtick]) = Normal (map Lit (crlf s))"
proof (induction s rule: crlf.induct)
  case (1 c d cs)
  have nd: "\<not> has_subst (d # cs)"
    using "1.prems" has_subst_tail by blast
  show ?case
  proof (cases "c = CR")
    case False
    then have "template (escape (d # cs) @ [backtick]) = Normal (map Lit (crlf (d # cs)))"
      using "1.IH"(3) nd by simp
    then have "template (escape (c # d # cs) @ [backtick]) = Normal (map Lit (c # crlf (d # cs)))"
      using "1.prems" False by (rule template_escape_step [rotated 2])
    then show ?thesis using False by simp
  next
    case True
    show ?thesis
    proof (cases "d = LF")
      case dl: True
      have "\<not> has_subst cs" using nd has_subst_tail by blast
      then have "template (escape cs @ [backtick]) = Normal (map Lit (crlf cs))"
        using "1.IH"(1) True dl by simp
      then show ?thesis
        using True dl by (simp add: escape_Cons template_CR_LF cmap_Normal del: template.simps)
    next
      case dl: False
      have ih: "template (escape (d # cs) @ [backtick]) = Normal (map Lit (crlf (d # cs)))"
        using "1.IH"(2) True dl nd by simp
      have "take 1 (escape (d # cs) @ [backtick]) \<noteq> [LF]"
        using dl take1_escape [of LF "d # cs"] by simp
      then have "template (CR # escape (d # cs) @ [backtick])
                   = cmap (Cons (Lit LF)) (template (escape (d # cs) @ [backtick]))"
        by (rule template_CR)
      then show ?thesis
        using True dl ih by (simp add: escape_Cons [of CR] cmap_Normal del: template.simps)
    qed
  qed
next
  case (2 c)
  have "template (escape [] @ [backtick]) = Normal (map Lit [])"
    by (simp add: escape_Nil)
  show ?case
  proof (cases "c = CR")
    case True
    then show ?thesis by (simp add: escape_Cons escape_Nil cmap_Normal)
  next
    case False
    have "template (escape (c # []) @ [backtick]) = Normal (map Lit (c # []))"
      using "2.prems" False
      by (rule template_escape_step) (simp add: escape_Nil)
    then show ?thesis using False by simp
  qed
next
  case 3
  then show ?case by (simp add: escape_Nil)
qed


lemma crlf_id: "CR \<notin> set s \<Longrightarrow> crlf s = s"
  by (induction s rule: crlf.induct) auto

lemma eval_template_Lit: "eval_template w (map Lit s) = Normal s"
  by (induction s) (simp_all add: cmap_Normal)

lemma js_Function_return:
  "js_Function (''return '' @ [backtick] @ t) = cmap ReturnTemplate (template t)"
  by (simp add: js_Function_def del: template.simps)

lemma js_Function_throw:
  "js_Function (''throw new ReferenceError('' @ [quote] @
      ''This view does not have a default display.'' @ [quote] @ '')'')
   = Normal (ThrowReferenceError ''This view does not have a default display.'')"
  by (simp add: js_Function_def plain_char_def)

lemma View_None:
  "View None d w =
     Normal \<lparr>body = ThrowReferenceError ''This view does not have a default display.'',
             props = [''_DATA'' \<mapsto> Val d], proto = ViewPrototype\<rparr>"
  unfolding View_def option.case js_Function_throw by simp

lemma View_Some_Throw: "fcode f w d [] = Throw e \<Longrightarrow> View (Some f) d w = Throw e"
  by (simp add: View_def)

lemma View_Some_primitive:
  "fcode f w d [] = Normal r \<Longrightarrow> r \<in> {Undefined, Null} \<union> range Bool \<union> range Num \<Longrightarrow>
   View (Some f) d w = Throw TypeError"
  by (auto simp: View_def)

lemma View_Some_Str:
  assumes "fcode f w d [] = Normal (Str s)" and "\<not> has_subst s"
  shows "View (Some f) d w =
           Normal \<lparr>body = ReturnTemplate (map Lit (crlf s)),
                   props = [''_DATA'' \<mapsto> Val d], proto = ViewPrototype\<rparr>"
proof -
  have "js_Function (''return '' @ [backtick] @ escape s @ [backtick])
          = Normal (ReturnTemplate (map Lit (crlf s)))"
    unfolding js_Function_return using assms(2)
    by (simp add: template_escape cmap_Normal del: template.simps)
  then show ?thesis
    using assms(1) by (simp add: View_def del: template.simps)
qed

lemma default_display_roundtrip:
  assumes "fcode f w d [] = Normal (Str s)" and "\<not> has_subst s"
  shows "cbind (View (Some f) d w) (\<lambda>v. call_view v w') = Normal (Str (crlf s))"
  by (simp add: View_Some_Str [OF assms] call_view_def eval_template_Lit cmap_Normal)

lemma default_display_identity:
  assumes "fcode f w d [] = Normal (Str s)" and "\<not> has_subst s" and "CR \<notin> set s"
  shows "cbind (View (Some f) d w) (\<lambda>v. call_view v w') = Normal (Str s)"
  using default_display_roundtrip [OF assms(1,2)] crlf_id [OF assms(3)] by simp

lemma addDisplay_keeps_DATA:
  "fname g \<noteq> ''_DATA'' \<Longrightarrow> addDisplay g a v = Normal v' \<Longrightarrow>
   get_DATA v' = get_DATA v \<and> body v' = body v"
  by (auto simp: addDisplay_def get_DATA_def Let_def split: if_splits)

lemma addDisplay_call:
  "addDisplay g a v = Normal v' \<Longrightarrow>
   call_named v' (fname g) args w = fcode g w (if a = Undefined then get_DATA v else a) args"
  by (auto simp: addDisplay_def call_named_def Let_def split: if_splits)

lemma View_intact: "View fn d w = Normal v \<Longrightarrow> intact v d"
proof -
  assume v: "View fn d w = Normal v"
  obtain c where c: "View fn d w =
      cbind c (\<lambda>b. Normal \<lparr>body = b, props = [''_DATA'' \<mapsto> Val d], proto = ViewPrototype\<rparr>)"
    by (simp add: View_def)
  with v obtain b where "v = \<lparr>body = b, props = [''_DATA'' \<mapsto> Val d], proto = ViewPrototype\<rparr>"
    by (cases c) auto
  then show ?thesis
    by (simp add: intact_def)
qed

lemma intact_static_view: "intact (static_view d) d"
  by (simp add: intact_def static_view_def)

lemma call_addDisplay_method:
  "props v ''addDisplay'' = None \<Longrightarrow> proto v = ViewPrototype \<Longrightarrow>
   call_addDisplay v g rest w = cmap (\<lambda>v'. (This, v')) (addDisplay g (second_arg rest) v)"
  by (simp add: call_addDisplay_def)

lemma call_addDisplay_intact:
  assumes "intact v d" and "fname g \<notin> set readonly_keys" and "fname g \<noteq> ''__proto__''"
  shows "call_addDisplay v g rest w =
           Normal (This, v\<lparr>props := (props v)(fname g \<mapsto>
             Display g (context_of d rest))\<rparr>)"
  using assms
  by (simp add: call_addDisplay_method intact_def addDisplay_def get_DATA_def cmap_Normal
      context_of_def)

lemma call_addDisplay_intact_proto:
  assumes "intact v d" and "fname g = ''__proto__''"
  shows "call_addDisplay v g rest w =
           Normal (This, v\<lparr>proto :=
             ProtoDisplay g (context_of d rest)\<rparr>)"
  using assms
  by (simp add: call_addDisplay_method intact_def addDisplay_def get_DATA_def cmap_Normal
      readonly_keys_def context_of_def)

lemma call_addDisplay_then_call:
  assumes "intact v d" and "fname g \<notin> set readonly_keys"
  shows "cbind (call_addDisplay v g rest w0) (\<lambda>(r, v'). Normal (r, call_named v' (fname g) args w))
           = Normal (This, fcode g w (context_of d rest) args)"
proof (cases "fname g = ''__proto__''")
  case True
  then show ?thesis
    by (simp add: call_addDisplay_intact_proto [OF assms(1) True] call_named_def)
next
  case False
  then show ?thesis
    using assms(2)
    by (simp add: call_addDisplay_intact [OF assms False] call_named_def)
qed

lemma intact_update:
  "intact v d \<Longrightarrow> n \<notin> set member_keys \<Longrightarrow> intact (v\<lparr>props := (props v)(n \<mapsto> x)\<rparr>) d"
  by (auto simp: intact_def member_keys_def)

lemma call_addDisplay_keeps_intact:
  assumes "intact v d" and "fname g \<notin> set member_keys"
  shows "\<exists>v'. call_addDisplay v g rest w = Normal (This, v') \<and> intact v' d"
proof -
  from assms(2) have "fname g \<notin> set readonly_keys" "fname g \<noteq> ''__proto__''"
    by (auto simp: member_keys_def)
  from call_addDisplay_intact [OF assms(1) this] intact_update [OF assms] show ?thesis
    by blast
qed

lemma cbind_Normal_D: "cbind c f = Normal y \<Longrightarrow> \<exists>x. c = Normal x \<and> f x = Normal y"
  by (cases c) simp_all

lemma call_addDisplay_keeps_DATA:
  assumes "fname g \<noteq> ''_DATA''" and "call_addDisplay v g rest w = Normal (r, v')"
  shows "get_DATA v' = get_DATA v \<and> body v' = body v"
proof (cases "props v ''addDisplay''")
  case None
  with assms(2) obtain u where "addDisplay g (second_arg rest) v = Normal u" "v' = u"
    by (cases "proto v"; cases "addDisplay g (second_arg rest) v")
       (auto simp: call_addDisplay_def cmap_def)
  with assms(1) show ?thesis
    using addDisplay_keeps_DATA by blast
next
  case (Some p)
  with assms(2) have "v' = v"
    by (cases p) (auto simp: call_addDisplay_def cmap_def split: if_splits dest: cbind_Normal_D)
  then show ?thesis by simp
qed

lemmas eval_simps =
  View_def js_Function_def call_view_def call_named_def addDisplay_def get_DATA_def
  escape_def cmap_def ident_part_def ident_start_def reserved_words_def readonly_keys_def
  plain_char_def world_x_def constant_fn_def this_fn_def throwing_fn_def name_fn_def
  world_named_def static_view_def call_addDisplay_def second_arg_def context_of_def

section \<open>The claims\<close>

subsection \<open>The default display\<close>

text \<open>
  C1. The claim: for every data value \<open>d\<close> and every rendering function \<open>f\<close> that returns
  a string, \<^verbatim>\<open>new View(f, d)()\<close> returns the string that \<open>f\<close> returns with context \<open>d\<close>.
  The constructor splices that string into a template literal and escapes backslashes and
  backticks only, so a \<^verbatim>\<open>${\<close> in it opens a substitution. At
  \<^verbatim>\<open>f = function () { return '${x}' }\<close> and a global variable \<open>x\<close> that holds
  \<^verbatim>\<open>'pwned'\<close>: \<open>f\<close> returns the five characters \<^verbatim>\<open>${x}\<close>, and the view returns
  \<^verbatim>\<open>'pwned'\<close>.
\<close>

theorem C1_default_display_evaluates_substitution:
  "fcode (constant_fn [] (Str ''${x}'')) (world_x (Str ''pwned'')) Null [] = Normal (Str ''${x}'')
   \<and> cbind (View (Some (constant_fn [] (Str ''${x}''))) Null (world_x (Str ''pwned'')))
        (\<lambda>v. call_view v (world_x (Str ''pwned''))) = Normal (Str ''pwned'')"
  by (simp add: eval_simps)

text \<open>
  C2, as amended. \<^verbatim>\<open>new View(null, data)\<close> throws nothing, for every \<open>data\<close>: the missing
  default display is an error of the call, not of the construction. \<^verbatim>\<open>new View(fn, data)\<close>
  with a function \<open>fn\<close> evaluates \<open>fn\<close> against \<open>data\<close> during the construction: what
  \<open>fn\<close> throws, the constructor throws; and when \<open>fn\<close> returns a string without
  \<^verbatim>\<open>${\<close> and without a carriage return, the constructor returns a view whose body
  is that string, fixed.
\<close>

theorem C2_construction:
  "View None d w = Normal (static_view d)
   \<and> (fcode f w d [] = Throw e \<longrightarrow> View (Some f) d w = Throw e)
   \<and> (fcode f w d [] = Normal (Str s) \<longrightarrow> \<not> has_subst s \<longrightarrow> CR \<notin> set s \<longrightarrow>
        View (Some f) d w =
          Normal \<lparr>body = ReturnTemplate (map Lit s),
                  props = [''_DATA'' \<mapsto> Val d], proto = ViewPrototype\<rparr>)"
  by (simp add: View_None View_Some_Throw View_Some_Str static_view_def crlf_id)

theorem C2_construction_witness:
  "View None Null (world_x Null) = Normal (static_view Null)
   \<and> View (Some (throwing_fn [] (Str ''late''))) Null (world_x Null) = Throw (Thrown (Str ''late''))
   \<and> View (Some (constant_fn [] (Str ''hi''))) Null (world_x Null) =
        Normal \<lparr>body = ReturnTemplate [Lit CHR ''h'', Lit CHR ''i''],
                props = [''_DATA'' \<mapsto> Val Null], proto = ViewPrototype\<rparr>"
  using C2_construction [of Null "world_x Null" "throwing_fn [] (Str ''late'')" "Thrown (Str ''late'')"]
    C2_construction [of Null "world_x Null" "constant_fn [] (Str ''hi'')" _ "''hi''"]
  by (simp add: throwing_fn_def constant_fn_def)

text \<open>
  The claim C2 as it was stated, that no construction throws and that \<open>fn\<close> is not
  evaluated by the constructor, fails at \<^verbatim>\<open>fn = function () { throw 'boom' }\<close>.
\<close>

theorem C2_constructor_throws_counterexample:
  "View (Some (throwing_fn [] (Str ''boom''))) Null (world_x Null) = Throw (Thrown (Str ''boom''))"
  by (simp add: View_def throwing_fn_def)

text \<open>
  C3. For every data value \<open>d\<close>, the view made by \<^verbatim>\<open>new View(null, d)\<close> and called with
  no selector throws the \<^verbatim>\<open>ReferenceError\<close> "This view does not have a default
  display.", whatever \<open>d\<close> is and in whatever world it is made and called: the call never
  returns, and no string conversion of \<open>d\<close> takes place.
\<close>

theorem C3_no_default_display_throws:
  "cbind (View None d w) (\<lambda>v. call_view v w')
     = Throw (ReferenceError ''This view does not have a default display.'')"
  by (simp add: View_None call_view_def)

subsection \<open>Named displays\<close>

text \<open>
  C4, as amended. For every view \<open>v\<close> that still holds its data \<open>d\<close> in \<^verbatim>\<open>_DATA\<close> and
  finds the method \<^verbatim>\<open>addDisplay\<close> on its prototype, every function \<open>g\<close> whose name \<open>n\<close> is
  none of \<^verbatim>\<open>name\<close>, \<^verbatim>\<open>length\<close>, \<^verbatim>\<open>arguments\<close>, \<^verbatim>\<open>caller\<close>, and every argument
  list: the call \<^verbatim>\<open>v.addDisplay(g)\<close> returns the view, and \<^verbatim>\<open>v.n(...args)\<close> is then \<open>g\<close>
  evaluated with context \<open>d\<close> and exactly these arguments; the call
  \<^verbatim>\<open>v.addDisplay(g, other)\<close> with an \<open>other\<close> that is not \<^verbatim>\<open>undefined\<close> returns the
  view, and \<^verbatim>\<open>v.n(...args)\<close> is then \<open>g\<close> evaluated with context \<open>other\<close>; an \<open>other\<close>
  that is \<^verbatim>\<open>undefined\<close> counts as missing, and the context is \<open>d\<close>.
\<close>

theorem C4_display_context:
  assumes "intact v d" and "fname g \<notin> set readonly_keys"
  shows "cbind (call_addDisplay v g [] w0)
           (\<lambda>(r, v'). Normal (r, call_named v' (fname g) args w))
           = Normal (This, fcode g w d args)
       \<and> (other \<noteq> Undefined \<longrightarrow>
            cbind (call_addDisplay v g (other # others) w0)
              (\<lambda>(r, v'). Normal (r, call_named v' (fname g) args w))
              = Normal (This, fcode g w other args))
       \<and> cbind (call_addDisplay v g (Undefined # others) w0)
           (\<lambda>(r, v'). Normal (r, call_named v' (fname g) args w))
           = Normal (This, fcode g w d args)"
  using call_addDisplay_then_call [OF assms, of "[]" w0 args w]
    call_addDisplay_then_call [OF assms, of "other # others" w0 args w]
    call_addDisplay_then_call [OF assms, of "Undefined # others" w0 args w]
  by (simp add: context_of_def second_arg_def)

theorem C4_display_context_witness:
  "intact (static_view (Obj 0)) (Obj 0)
   \<and> fname (name_fn ''shout'') \<notin> set readonly_keys
   \<and> cbind (call_addDisplay (static_view (Obj 0)) (name_fn ''shout'') [] (world_named ''Alice''))
        (\<lambda>(r, v'). Normal (r, call_named v' ''shout'' [] (world_named ''Alice'')))
        = Normal (This, Normal (Str ''Alice''))
   \<and> Obj 0 \<noteq> Undefined
   \<and> cbind (call_addDisplay (static_view Null) (name_fn ''shout'') [Obj 0] (world_named ''Bob''))
        (\<lambda>(r, v'). Normal (r, call_named v' ''shout'' [] (world_named ''Bob'')))
        = Normal (This, Normal (Str ''Bob''))
   \<and> cbind (call_addDisplay (static_view (Obj 0)) (name_fn ''shout'') [Undefined]
          (world_named ''Alice''))
        (\<lambda>(r, v'). Normal (r, call_named v' ''shout'' [] (world_named ''Alice'')))
        = Normal (This, Normal (Str ''Alice''))"
proof -
  have i: "intact (static_view (Obj 0)) (Obj 0)" and j: "intact (static_view Null) Null"
    by (rule intact_static_view)+
  have n: "fname (name_fn ''shout'') \<notin> set readonly_keys"
    by (simp add: name_fn_def readonly_keys_def)
  show ?thesis
    using i n
      C4_display_context [OF i n, where ?w0.0 = "world_named ''Alice''" and args = "[]"
        and w = "world_named ''Alice''" and other = Null and others = "[]"]
      C4_display_context [OF j n, where ?w0.0 = "world_named ''Bob''" and args = "[]"
        and w = "world_named ''Bob''" and other = "Obj 0" and others = "[]"]
    by (simp add: name_fn_def world_named_def)
qed

text \<open>
  The claim C4 as it was stated fails in three places. Where the other context is
  \<^verbatim>\<open>undefined\<close>: after
  \<^verbatim>\<open>v.addDisplay(function ctx() { 'use strict'; return this }, undefined)\<close> on a view of the
  data \<^verbatim>\<open>'data'\<close>, \<^verbatim>\<open>v.ctx()\<close> is \<^verbatim>\<open>'data'\<close>, where the function evaluated with context
  \<^verbatim>\<open>undefined\<close> returns \<^verbatim>\<open>undefined\<close>. Where the function is named \<^verbatim>\<open>length\<close>: the
  call throws. And on a view that carries a display named \<^verbatim>\<open>addDisplay\<close>: the call
  \<^verbatim>\<open>v.addDisplay(function n() { return 'x' })\<close> runs that display, returns its value and
  leaves the view without a property \<open>n\<close>.
\<close>

theorem C4_undefined_context_counterexample:
  "cbind (call_addDisplay (static_view (Str ''data'')) (this_fn ''ctx'') [Undefined] (world_x Null))
      (\<lambda>(r, v'). Normal (r, call_named v' ''ctx'' [] (world_x Null)))
      = Normal (This, Normal (Str ''data''))
   \<and> fcode (this_fn ''ctx'') (world_x Null) Undefined [] = Normal Undefined
   \<and> call_addDisplay (static_view (Str ''data'')) (this_fn ''length'') [] (world_x Null)
      = Throw TypeError
   \<and> cbind (call_addDisplay (static_view Null) (constant_fn ''addDisplay'' (Str ''first'')) []
          (world_x Null))
      (\<lambda>(r1, v1). cbind (call_addDisplay v1 (constant_fn ''n'' (Str ''x'')) [] (world_x Null))
      (\<lambda>(r2, v2). Normal (r1, r2, props v2 ''n'')))
      = Normal (This, Value (Str ''first''), None)"
  by (simp add: eval_simps)

text \<open>
  C5, as amended. For every view \<open>v\<close> that still holds its data \<open>d\<close> in \<^verbatim>\<open>_DATA\<close> and
  finds the method \<^verbatim>\<open>addDisplay\<close> on its prototype, and every two functions \<open>g1\<close> and
  \<open>g2\<close> of one name \<open>n\<close> that is none of \<^verbatim>\<open>name\<close>, \<^verbatim>\<open>length\<close>, \<^verbatim>\<open>arguments\<close>,
  \<^verbatim>\<open>caller\<close>, \<^verbatim>\<open>addDisplay\<close>, \<^verbatim>\<open>__proto__\<close>, \<^verbatim>\<open>_DATA\<close>: registering \<open>g1\<close> and
  then \<open>g2\<close> by \<^verbatim>\<open>addDisplay\<close> returns the view both times and leaves it in the state
  that registering \<open>g2\<close> alone leaves it in, so \<open>g2\<close> has replaced \<open>g1\<close>; a call
  \<^verbatim>\<open>v.n(...args)\<close> is then \<open>g2\<close> evaluated with the context given with \<open>g2\<close> (\<open>d\<close> when
  none was given) and the arguments of the call.
\<close>

theorem C5_last_attachment_wins:
  assumes "intact v d" and "fname g1 = fname g2" and "fname g2 \<notin> set member_keys"
  shows "cbind (call_addDisplay v g1 rest1 w1)
           (\<lambda>(r1, v1). cbind (call_addDisplay v1 g2 rest2 w2)
           (\<lambda>(r2, v2). Normal (r1, r2, v2)))
           = Normal (This, This,
               v\<lparr>props := (props v)(fname g2 \<mapsto> Display g2 (context_of d rest2))\<rparr>)
       \<and> call_addDisplay v g2 rest2 w2
           = Normal (This, v\<lparr>props := (props v)(fname g2 \<mapsto> Display g2 (context_of d rest2))\<rparr>)
       \<and> call_named (v\<lparr>props := (props v)(fname g2 \<mapsto> Display g2 (context_of d rest2))\<rparr>)
           (fname g1) args w = fcode g2 w (context_of d rest2) args"
proof -
  let ?v1 = "v\<lparr>props := (props v)(fname g1 \<mapsto> Display g1 (context_of d rest1))\<rparr>"
  from assms(2,3) have k: "fname g1 \<notin> set member_keys"
    by simp
  have r1: "fname g1 \<notin> set readonly_keys" "fname g1 \<noteq> ''__proto__''"
   and r2: "fname g2 \<notin> set readonly_keys" "fname g2 \<noteq> ''__proto__''"
    using assms(3) k by (auto simp: member_keys_def)
  have i1: "intact ?v1 d"
    using assms(1) k by (rule intact_update)
  have c1: "call_addDisplay v g1 rest1 w1 = Normal (This, ?v1)"
    using assms(1) r1 by (rule call_addDisplay_intact)
  have c2: "call_addDisplay ?v1 g2 rest2 w2
              = Normal (This, v\<lparr>props := (props v)(fname g2 \<mapsto> Display g2 (context_of d rest2))\<rparr>)"
    using call_addDisplay_intact [OF i1 r2, of rest2 w2] assms(2) by simp
  have c3: "call_addDisplay v g2 rest2 w2
              = Normal (This, v\<lparr>props := (props v)(fname g2 \<mapsto> Display g2 (context_of d rest2))\<rparr>)"
    using assms(1) r2 by (rule call_addDisplay_intact)
  show ?thesis
    using c1 c2 c3 assms(2) r2 by (simp add: call_named_def)
qed

theorem C5_last_attachment_wins_witness:
  "intact (static_view Null) Null
   \<and> fname (constant_fn ''n'' (Str ''first'')) = fname (constant_fn ''n'' (Str ''second''))
   \<and> fname (constant_fn ''n'' (Str ''second'')) \<notin> set member_keys
   \<and> cbind (call_addDisplay (static_view Null) (constant_fn ''n'' (Str ''first'')) [] (world_x Null))
        (\<lambda>(r1, v1). cbind (call_addDisplay v1 (constant_fn ''n'' (Str ''second'')) [] (world_x Null))
        (\<lambda>(r2, v2). Normal (r1, r2, call_named v2 ''n'' [] (world_x Null))))
        = Normal (This, This, Normal (Str ''second''))"
proof -
  let ?g1 = "constant_fn ''n'' (Str ''first'')" and ?g2 = "constant_fn ''n'' (Str ''second'')"
  have i: "intact (static_view Null) Null"
    by (rule intact_static_view)
  have n: "fname ?g1 = fname ?g2"
    by (simp add: constant_fn_def)
  have k: "fname ?g2 \<notin> set member_keys"
    by (simp add: constant_fn_def member_keys_def readonly_keys_def)
  show ?thesis
    using i n k C5_last_attachment_wins [OF i n k, where ?rest1.0 = "[]"
      and ?w1.0 = "world_x Null" and ?rest2.0 = "[]" and ?w2.0 = "world_x Null" and args = "[]"
      and w = "world_x Null"]
    by (auto simp: constant_fn_def dest!: cbind_Normal_D)
qed

text \<open>
  The claim C5 as it was stated, for every name, fails at the name \<^verbatim>\<open>addDisplay\<close>: the
  display registered first takes the place of the method on the view, the second call
  \<^verbatim>\<open>v.addDisplay(g2)\<close> runs it and registers nothing, and \<^verbatim>\<open>v.addDisplay()\<close> is still the
  first function.
\<close>

theorem C5_method_name_counterexample:
  "cbind (call_addDisplay (static_view Null) (constant_fn ''addDisplay'' (Str ''first'')) []
          (world_x Null))
      (\<lambda>(r1, v1). cbind (call_addDisplay v1 (constant_fn ''addDisplay'' (Str ''second'')) []
          (world_x Null))
      (\<lambda>(r2, v2). Normal (r1, r2, call_named v2 ''addDisplay'' [] (world_x Null))))
      = Normal (This, Value (Str ''first''), Normal (Str ''first''))"
  by (simp add: eval_simps)

text \<open>
  C6, as amended. For every view \<open>v\<close> that still holds its data \<open>d\<close> in \<^verbatim>\<open>_DATA\<close> and
  finds the method \<^verbatim>\<open>addDisplay\<close> on its prototype, and every function \<open>g\<close> whose name is
  the empty string, the call \<^verbatim>\<open>v.addDisplay(g)\<close> throws nothing: it stores the display
  under the empty property key and returns the view, and \<^verbatim>\<open>v[''](...args)\<close> then
  evaluates \<open>g\<close> with the arguments of the call.
\<close>

theorem C6_unnamed_function_is_stored:
  assumes "intact v d" and "fname g = []"
  shows "call_addDisplay v g rest w0
           = Normal (This, v\<lparr>props := (props v)([] \<mapsto> Display g (context_of d rest))\<rparr>)
       \<and> call_named (v\<lparr>props := (props v)([] \<mapsto> Display g (context_of d rest))\<rparr>) [] args w
           = fcode g w (context_of d rest) args"
  using assms call_addDisplay_intact [OF assms(1), of g rest w0]
  by (simp add: readonly_keys_def call_named_def)

theorem C6_unnamed_function_is_stored_witness:
  "intact (static_view (Str ''data'')) (Str ''data'')
   \<and> fname (this_fn []) = []
   \<and> call_addDisplay (static_view (Str ''data'')) (this_fn []) [] (world_x Null)
       = Normal (This, (static_view (Str ''data''))
           \<lparr>props := (props (static_view (Str ''data'')))([] \<mapsto> Display (this_fn []) (Str ''data''))\<rparr>)
   \<and> call_named ((static_view (Str ''data''))
           \<lparr>props := (props (static_view (Str ''data'')))([] \<mapsto> Display (this_fn []) (Str ''data''))\<rparr>)
        [] [] (world_x Null) = Normal (Str ''data'')"
proof -
  have i: "intact (static_view (Str ''data'')) (Str ''data'')"
    by (rule intact_static_view)
  have n: "fname (this_fn []) = []"
    by (simp add: this_fn_def)
  show ?thesis
    using i n C6_unnamed_function_is_stored [OF i n, where rest = "[]" and ?w0.0 = "world_x Null"
      and args = "[]" and w = "world_x Null"]
    by (simp add: context_of_def second_arg_def this_fn_def)
qed

text \<open>
  The claim C6 as it was stated, that \<^verbatim>\<open>addDisplay\<close> fails on a function without a name,
  fails at \<^verbatim>\<open>function () { return 'x' }\<close>: the call returns the view, and the display
  answers under the empty key.
\<close>

theorem C6_unnamed_function_counterexample:
  "cbind (addDisplay (constant_fn [] (Str ''x'')) Undefined (static_view Null))
      (\<lambda>v. call_named v [] [] (world_x Null)) = Normal (Str ''x'')"
  by (simp add: eval_simps)

text \<open>
  C7, as amended. A default display that returns \<^verbatim>\<open>undefined\<close>, \<^verbatim>\<open>null\<close>, a boolean or a
  number makes the constructor throw a \<^verbatim>\<open>TypeError\<close>: the error is raised at
  construction, and there is no view to call. A named display's result is returned by the
  call \<^verbatim>\<open>v.n(...args)\<close> as it is, string or not: no error is raised for it.
\<close>

theorem C7_non_string_results:
  "(fcode f w d [] = Normal r \<longrightarrow> r \<in> {Undefined, Null} \<union> range Bool \<union> range Num \<longrightarrow>
      View (Some f) d w = Throw TypeError)
   \<and> (addDisplay g a v = Normal v' \<longrightarrow>
        fcode g w' (if a = Undefined then get_DATA v else a) args = Normal r' \<longrightarrow>
        call_named v' (fname g) args w' = Normal r')"
  by (simp add: View_Some_primitive addDisplay_call)

theorem C7_non_string_results_witness:
  "View (Some (constant_fn [] (Bool True))) Null (world_x Null) = Throw TypeError
   \<and> call_named ((static_view Null)
        \<lparr>props := (props (static_view Null))(''n'' \<mapsto> Display (constant_fn ''n'' Null) Null)\<rparr>)
        ''n'' [] (world_x Null) = Normal Null"
proof -
  let ?f = "constant_fn [] (Bool True)" and ?g = "constant_fn ''n'' Null"
  let ?v = "(static_view Null)\<lparr>props := (props (static_view Null))(''n'' \<mapsto> Display ?g Null)\<rparr>"
  have h: "addDisplay ?g Undefined (static_view Null) = Normal ?v"
    by (simp add: addDisplay_def get_DATA_def static_view_def constant_fn_def readonly_keys_def)
  show ?thesis
    using h C7_non_string_results [of ?f "world_x Null" Null "Bool True" ?g Undefined
        "static_view Null" ?v "world_x Null" "[]" Null]
    by (simp add: get_DATA_def static_view_def constant_fn_def)
qed

text \<open>
  The claim C7 as it was stated, that a display whose result is not a string makes the
  call throw, fails at the named display \<^verbatim>\<open>function n() { return 42 }\<close>: \<^verbatim>\<open>v.n()\<close>
  returns the number.
\<close>

theorem C7_non_string_display_counterexample:
  "cbind (addDisplay (constant_fn ''n'' (Num 42)) Undefined (static_view Null))
      (\<lambda>v. call_named v ''n'' [] (world_x Null)) = Normal (Num 42)"
  by (simp add: eval_simps)

subsection \<open>What a view keeps\<close>

text \<open>
  C8. The claim: no sequence of \<^verbatim>\<open>addDisplay\<close> calls changes the data a view is bound to,
  and \<^verbatim>\<open>addDisplay\<close> changes nothing but the set of named displays. The displays are
  stored as properties of the view, beside \<^verbatim>\<open>_DATA\<close>. At
  \<^verbatim>\<open>new View(null, 'data').addDisplay(function _DATA() { return 'x' })\<close> the property
  \<^verbatim>\<open>_DATA\<close>, which held \<^verbatim>\<open>'data'\<close>, holds the closure of the display; a display added
  afterwards without a context of its own is evaluated against that closure.
\<close>

theorem C8_display_named_DATA_replaces_data:
  "cmap get_DATA (View None (Str ''data'') (world_x Null)) = Normal (Str ''data'')
   \<and> cmap get_DATA (cbind (View None (Str ''data'') (world_x Null))
        (addDisplay (constant_fn ''_DATA'' (Str ''x'')) Undefined)) = Normal FunctionObject
   \<and> cbind (cbind (cbind (View None (Str ''data'') (world_x Null))
        (addDisplay (constant_fn ''_DATA'' (Str ''x'')) Undefined))
        (addDisplay (this_fn ''who'') Undefined))
        (\<lambda>v. call_named v ''who'' [] (world_x Null)) = Normal FunctionObject"
  by (simp add: eval_simps)

text \<open>
  C9. The claim: the string of the default display is fixed at construction, so that any
  two calls of one view return equal strings. At \<^verbatim>\<open>function () { return '${x}' }\<close> the
  view is made once, and its call returns \<^verbatim>\<open>'1'\<close> while the global variable \<open>x\<close> holds
  \<^verbatim>\<open>'1'\<close> and \<^verbatim>\<open>'2'\<close> once it holds \<^verbatim>\<open>'2'\<close>.
\<close>

theorem C9_two_calls_differ:
  "cbind (View (Some (constant_fn [] (Str ''${x}''))) Null (world_x (Str ''0'')))
        (\<lambda>v. Normal (call_view v (world_x (Str ''1'')), call_view v (world_x (Str ''2''))))
     = Normal (Normal (Str ''1''), Normal (Str ''2''))"
  by (simp add: eval_simps)

text \<open>
  C10. The claim: on a string without \<^verbatim>\<open>${\<close>, escaping followed by the evaluation of
  the template literal gives the string back. At the three characters a, CR, b, which
  hold no \<^verbatim>\<open>${\<close>, the view returns a, LF, b: a template literal reads a carriage
  return as a line feed, and the constructor does not escape it.
\<close>

theorem C10_carriage_return_becomes_line_feed:
  "\<not> has_subst [CHR ''a'', CR, CHR ''b'']
   \<and> cbind (View (Some (constant_fn [] (Str [CHR ''a'', CR, CHR ''b'']))) Null (world_x Null))
        (\<lambda>v. call_view v (world_x Null)) = Normal (Str [CHR ''a'', LF, CHR ''b''])"
  by (simp add: eval_simps)

end
